theory Spec2Isabelle
  imports Complex_Main "HOL-Library.Multiset" "HOL-Library.Product_Lexorder"
begin

section \<open>JavaScript values and library functions used by the pipeline\<close>

text \<open>
  The pipeline is TypeScript running on Node. Its values are modelled as follows.
  A string is a \<^typ>\<open>string\<close>; a character stands for one UTF-16 code unit, which is what
  \<^verbatim>\<open>length\<close>, \<^verbatim>\<open>slice\<close> and \<^verbatim>\<open>indexOf\<close> count. String offsets are natural numbers.
  A number is a \<open>jsnum\<close>: a finite value (a rational, since every finite double is one),
  an infinity or NaN.
\<close>

datatype jsnum = NaN | NegInf | Fin rat | PosInf

text \<open>The relational operators \<^verbatim>\<open><=\<close> and \<^verbatim>\<open>>=\<close> on numbers: false whenever an operand is NaN.\<close>

fun num_le :: "jsnum \<Rightarrow> jsnum \<Rightarrow> bool" where
  "num_le NaN _ = False"
| "num_le _ NaN = False"
| "num_le NegInf _ = True"
| "num_le _ PosInf = True"
| "num_le (Fin a) (Fin b) = (a \<le> b)"
| "num_le (Fin a) NegInf = False"
| "num_le PosInf (Fin b) = False"
| "num_le PosInf NegInf = False"

definition num_ge :: "jsnum \<Rightarrow> jsnum \<Rightarrow> bool" where
  "num_ge a b = num_le b a"

text \<open>
  A record is an object with string keys; \<^verbatim>\<open>Object.entries\<close> lists the own properties in
  insertion order, so a record is an association list with distinct keys. Reading a missing
  key gives \<^verbatim>\<open>undefined\<close>.
\<close>

datatype jsval =
    JUndefined
  | JNull
  | JBool bool
  | JNum jsnum
  | JStr string
  | JArr "jsval list"
  | JObj "(string \<times> jsval) list"

type_synonym jsrecord = "(string \<times> jsval) list"

definition js_get :: "jsrecord \<Rightarrow> string \<Rightarrow> jsval" where
  "js_get r k = (case map_of r k of None \<Rightarrow> JUndefined | Some v \<Rightarrow> v)"

text \<open>\<^verbatim>\<open>r[k] = v\<close>: an existing key keeps its place, a new key goes to the end.\<close>

fun js_set :: "jsrecord \<Rightarrow> string \<Rightarrow> jsval \<Rightarrow> jsrecord" where
  "js_set [] k v = [(k, v)]"
| "js_set ((k', v') # r) k v = (if k' = k then (k, v) # r else (k', v') # js_set r k v)"

text \<open>\<^verbatim>\<open>text.indexOf(pat)\<close>: the first offset at which \<open>pat\<close> occurs, \<open>None\<close> for \<^verbatim>\<open>-1\<close>.\<close>

definition js_indexOf :: "string \<Rightarrow> string \<Rightarrow> nat option" where
  "js_indexOf text pat =
     find (\<lambda>i. take (length pat) (drop i text) = pat) [0 ..< Suc (length text - length pat)]"

definition js_includes :: "string \<Rightarrow> string \<Rightarrow> bool" where
  "js_includes text pat = (js_indexOf text pat \<noteq> None)"

text \<open>
  \<^verbatim>\<open>Array.prototype.sort(cmp)\<close> is a stable sort: an element goes before the first element
  it does not compare greater than, elements that compare equal keep their order.
\<close>

fun js_insort :: "('a \<Rightarrow> 'a \<Rightarrow> rat) \<Rightarrow> 'a \<Rightarrow> 'a list \<Rightarrow> 'a list" where
  "js_insort cmp x [] = [x]"
| "js_insort cmp x (y # ys) = (if cmp x y \<le> 0 then x # y # ys else y # js_insort cmp x ys)"

definition js_sort :: "('a \<Rightarrow> 'a \<Rightarrow> rat) \<Rightarrow> 'a list \<Rightarrow> 'a list" where
  "js_sort cmp xs = foldr (js_insort cmp) xs []"

section \<open>PII detection and redaction (server/lib/pii.ts)\<close>

text \<open>
  A function that throws returns \<open>Inl\<close> with the error thrown: the constructor of the
  error object and its message.
\<close>

datatype js_error = Error string | TypeError string

datatype PIIType =
    Email | Phone | Ssn | CreditCard | IpAddress
  | PersonName | Address | DateOfBirth | Url | Custom

text \<open>The string behind each member of the union type, and its \<^verbatim>\<open>toUpperCase()\<close>.\<close>

fun type_name :: "PIIType \<Rightarrow> string" where
  "type_name Email = ''email''"
| "type_name Phone = ''phone''"
| "type_name Ssn = ''ssn''"
| "type_name CreditCard = ''credit_card''"
| "type_name IpAddress = ''ip_address''"
| "type_name PersonName = ''person_name''"
| "type_name Address = ''address''"
| "type_name DateOfBirth = ''date_of_birth''"
| "type_name Url = ''url''"
| "type_name Custom = ''custom''"

fun type_upper :: "PIIType \<Rightarrow> string" where
  "type_upper Email = ''EMAIL''"
| "type_upper Phone = ''PHONE''"
| "type_upper Ssn = ''SSN''"
| "type_upper CreditCard = ''CREDIT_CARD''"
| "type_upper IpAddress = ''IP_ADDRESS''"
| "type_upper PersonName = ''PERSON_NAME''"
| "type_upper Address = ''ADDRESS''"
| "type_upper DateOfBirth = ''DATE_OF_BIRTH''"
| "type_upper Url = ''URL''"
| "type_upper Custom = ''CUSTOM''"

text \<open>
  \<^verbatim>\<open>interface PIIMatch { type; value; start; end; confidence }\<close>. The span of a match is
  the characters at offsets \<open>mstart\<close> up to, not including, \<open>mend\<close>.
\<close>

record PIIMatch =
  mtype :: PIIType
  mvalue :: string
  mstart :: nat
  mend :: nat
  confidence :: rat

record PIIDetectionResult =
  hasPII :: bool
  matches :: "PIIMatch list"
  redactedText :: string

text \<open>
  The regular-expression engine and the NLP library are outside the repository. A regular
  expression is modelled by what the loop \<^verbatim>\<open>while ((match = regex.exec(text)) !== null)\<close>
  sees: the list of \<open>(match.index, match[0])\<close> in the order found. The NLP library is
  modelled by the texts that \<^verbatim>\<open>doc.people()\<close> and \<^verbatim>\<open>doc.places()\<close> yield.
\<close>

type_synonym regex = "string \<Rightarrow> (nat \<times> string) list"

record pii_env =
  regex_of :: "string \<Rightarrow> regex"
  people :: "string \<Rightarrow> string list"
  places :: "string \<Rightarrow> string list"

text \<open>The table \<^verbatim>\<open>patterns\<close>: key, type and confidence of each entry, in source order.\<close>

definition patterns :: "(string \<times> PIIType \<times> rat) list" where
  "patterns =
     [(''email'', Email, 95 / 100),
      (''phone'', Phone, 85 / 100),
      (''ssn'', Ssn, 90 / 100),
      (''creditCard'', CreditCard, 90 / 100),
      (''ipAddress'', IpAddress, 95 / 100),
      (''url'', Url, 95 / 100),
      (''dateOfBirth'', DateOfBirth, 70 / 100)]"

definition regex_matches :: "regex \<Rightarrow> PIIType \<Rightarrow> rat \<Rightarrow> string \<Rightarrow> PIIMatch list" where
  "regex_matches rx t c text =
     map (\<lambda>(i, v). \<lparr>mtype = t, mvalue = v, mstart = i, mend = i + length v, confidence = c\<rparr>)
       (rx text)"

definition detectPatternPII :: "pii_env \<Rightarrow> string \<Rightarrow> PIIMatch list" where
  "detectPatternPII env text =
     concat (map (\<lambda>(k, t, c). regex_matches (regex_of env k) t c text) patterns)"

definition nlp_matches :: "PIIType \<Rightarrow> rat \<Rightarrow> nat \<Rightarrow> string \<Rightarrow> string list \<Rightarrow> PIIMatch list" where
  "nlp_matches t c minlen text found =
     concat (map (\<lambda>name.
       if minlen \<le> length name then
         (case js_indexOf text name of
            None \<Rightarrow> []
          | Some index \<Rightarrow>
              [\<lparr>mtype = t, mvalue = name, mstart = index, mend = index + length name,
                confidence = c\<rparr>])
       else []) found)"

definition detectPersonNames :: "pii_env \<Rightarrow> string \<Rightarrow> PIIMatch list" where
  "detectPersonNames env text = nlp_matches PersonName (75 / 100) 2 text (people env text)"

definition detectAddresses :: "pii_env \<Rightarrow> string \<Rightarrow> PIIMatch list" where
  "detectAddresses env text = nlp_matches Address (65 / 100) 3 text (places env text)"

text \<open>The comparator of \<^verbatim>\<open>deduplicateMatches\<close>: start ascending, then confidence descending.\<close>

definition cmp_start_conf :: "PIIMatch \<Rightarrow> PIIMatch \<Rightarrow> rat" where
  "cmp_start_conf a b =
     (if mstart a \<noteq> mstart b then of_nat (mstart a) - of_nat (mstart b)
      else confidence b - confidence a)"

text \<open>The test inside \<^verbatim>\<open>result.some(...)\<close>.\<close>

definition overlaps :: "PIIMatch \<Rightarrow> PIIMatch \<Rightarrow> bool" where
  "overlaps match existing \<longleftrightarrow>
     (mstart match \<ge> mstart existing \<and> mstart match < mend existing) \<or>
     (mend match > mstart existing \<and> mend match \<le> mend existing) \<or>
     (mstart match \<le> mstart existing \<and> mend match \<ge> mend existing)"

fun dedup_loop :: "PIIMatch list \<Rightarrow> PIIMatch list \<Rightarrow> PIIMatch list" where
  "dedup_loop [] result = result"
| "dedup_loop (match # rest) result =
     dedup_loop rest (if list_ex (overlaps match) result then result else result @ [match])"

definition deduplicateMatches :: "PIIMatch list \<Rightarrow> PIIMatch list" where
  "deduplicateMatches ms = dedup_loop (js_sort cmp_start_conf ms) []"

record custom_pattern =
  cp_name :: string
  cp_regex :: regex
  cp_type :: PIIType

record detect_options =
  detectNames :: "bool option"
  detectAddresses_opt :: "bool option"
  customPatterns :: "custom_pattern list option"

definition no_options :: detect_options where
  "no_options = \<lparr>detectNames = None, detectAddresses_opt = None, customPatterns = None\<rparr>"

text \<open>A destructuring default applies when the property is \<^verbatim>\<open>undefined\<close>.\<close>

definition or_default :: "'a option \<Rightarrow> 'a \<Rightarrow> 'a" where
  "or_default x d = (case x of None \<Rightarrow> d | Some v \<Rightarrow> v)"

text \<open>
  Everything pushed onto \<^verbatim>\<open>allMatches\<close>, in the order pushed. The body of \<^verbatim>\<open>detectPII\<close>
  begins with
  \<^verbatim>\<open>const { detectNames = true, detectAddresses = true, customPatterns = [] } = options\<close>,
  so that inside the body the name \<^verbatim>\<open>detectAddresses\<close> is this boolean constant and no
  longer the function declared before it. When the constant is true, the statement
  \<^verbatim>\<open>allMatches.push(...detectAddresses(text))\<close> calls a boolean and throws
  \<^verbatim>\<open>TypeError: detectAddresses is not a function\<close>; when it is false the statement is
  skipped. The pattern and name detectors have run by then; they have no effect that
  outlasts the exception.
\<close>

definition allMatches :: "pii_env \<Rightarrow> string \<Rightarrow> detect_options \<Rightarrow> js_error + PIIMatch list" where
  "allMatches env text opts =
     (let pushed = detectPatternPII env text
                   @ (if or_default (detectNames opts) True then detectPersonNames env text else [])
      in if or_default (detectAddresses_opt opts) True
         then Inl (TypeError ''detectAddresses is not a function'')
         else Inr (pushed
                   @ concat (map (\<lambda>p. regex_matches (cp_regex p) (cp_type p) (80 / 100) text)
                       (or_default (customPatterns opts) []))))"

text \<open>\<^verbatim>\<open>s.slice(0, match.start) + replacement + s.slice(match.end)\<close>.\<close>

definition splice :: "string \<Rightarrow> PIIMatch \<Rightarrow> string \<Rightarrow> string" where
  "splice s m replacement = take (mstart m) s @ replacement @ drop (mend m) s"

definition cmp_start_desc :: "PIIMatch \<Rightarrow> PIIMatch \<Rightarrow> rat" where
  "cmp_start_desc a b = of_nat (mstart b) - of_nat (mstart a)"

definition bracket_label :: "PIIMatch \<Rightarrow> string" where
  "bracket_label m = ''['' @ type_upper (mtype m) @ '']''"

definition detectPII :: "pii_env \<Rightarrow> string \<Rightarrow> detect_options \<Rightarrow> js_error + PIIDetectionResult" where
  "detectPII env text opts =
     (case allMatches env text opts of
        Inl e \<Rightarrow> Inl e
      | Inr raw \<Rightarrow>
          (let ms = deduplicateMatches raw;
               sortedMatches = js_sort cmp_start_desc ms
           in Inr \<lparr>hasPII = (0 < length ms),
                    matches = ms,
                    redactedText = foldl (\<lambda>s m. splice s m (bracket_label m)) text sortedMatches\<rparr>))"

record redact_options =
  redactionChar :: "string option"
  preserveLength :: "bool option"
  redactionLabels :: "(string \<Rightarrow> string option) option"

text \<open>
  The choice of replacement in \<^verbatim>\<open>redactPII\<close>. The first test is
  \<^verbatim>\<open>redactionLabels && redactionLabels[match.type]\<close>: a label counts when it is a
  non-empty string.
\<close>

definition label_for :: "redact_options \<Rightarrow> PIIMatch \<Rightarrow> string option" where
  "label_for opts m =
     (case redactionLabels opts of None \<Rightarrow> None | Some labels \<Rightarrow> labels (type_name (mtype m)))"

definition replacement :: "redact_options \<Rightarrow> PIIMatch \<Rightarrow> string" where
  "replacement opts m =
     (case label_for opts m of
        Some l \<Rightarrow>
          if l \<noteq> [] then l
          else if or_default (preserveLength opts) False
            then concat (replicate (length (mvalue m)) (or_default (redactionChar opts) ''*''))
          else bracket_label m
      | None \<Rightarrow>
          if or_default (preserveLength opts) False
            then concat (replicate (length (mvalue m)) (or_default (redactionChar opts) ''*''))
          else bracket_label m)"

text \<open>\<^verbatim>\<open>redactPII\<close> starts with \<^verbatim>\<open>detectPII(text)\<close>, without options.\<close>

definition redactPII :: "pii_env \<Rightarrow> string \<Rightarrow> redact_options \<Rightarrow> js_error + string" where
  "redactPII env text opts =
     (case detectPII env text no_options of
        Inl e \<Rightarrow> Inl e
      | Inr result \<Rightarrow>
          Inr (if \<not> hasPII result then text
               else foldl (\<lambda>s m. splice s m (replacement opts m)) text
                      (js_sort cmp_start_desc (matches result))))"

section \<open>Filters (server/services/processing-queue.service.ts)\<close>

text \<open>
  Library functions of the JavaScript runtime and of the CSV packages that the service calls.
  They are parameters of the model: \<^verbatim>\<open>Number(s)\<close> and \<^verbatim>\<open>String(n)\<close>, \<^verbatim>\<open>JSON.stringify(v)\<close>,
  \<^verbatim>\<open>JSON.stringify(v, null, 2)\<close>, \<^verbatim>\<open>JSON.parse(s)\<close>, \<^verbatim>\<open>csvParse(s, {columns: true,
  skip_empty_lines: true})\<close> and \<^verbatim>\<open>csvStringify(records, {header: true})\<close>. A function
  that throws returns \<open>Inl\<close> with the message of the error.
\<close>

record js_builtins =
  string_to_number :: "string \<Rightarrow> jsnum"
  number_to_string :: "jsnum \<Rightarrow> string"
  json_stringify :: "jsval \<Rightarrow> string"
  json_stringify_pretty :: "jsval \<Rightarrow> string"
  json_parse :: "string \<Rightarrow> string + jsval"
  csv_parse :: "string \<Rightarrow> string + jsval"
  csv_stringify :: "jsval list \<Rightarrow> string"

text \<open>
  \<^verbatim>\<open>field: string; operator: ...; value: string | number\<close>. The operator is kept as the
  string it is at run time: the configuration is read from the job row with a type
  assertion, without a check.
\<close>

record filter_condition =
  field :: string
  operator :: string
  cvalue :: jsval

text \<open>
  \<^verbatim>\<open>a === b\<close> where \<open>b\<close> is a string or a number. NaN equals nothing; an array or an object
  of a record is never identical to a condition's value.
\<close>

fun js_strict_eq :: "jsval \<Rightarrow> jsval \<Rightarrow> bool" where
  "js_strict_eq JUndefined JUndefined = True"
| "js_strict_eq JNull JNull = True"
| "js_strict_eq (JBool a) (JBool b) = (a = b)"
| "js_strict_eq (JNum a) (JNum b) = (a \<noteq> NaN \<and> a = b)"
| "js_strict_eq (JStr a) (JStr b) = (a = b)"
| "js_strict_eq _ _ = False"

text \<open>\<^verbatim>\<open>Number(condition.value)\<close> and \<^verbatim>\<open>String(condition.value)\<close> for a string or a number.\<close>

fun js_Number :: "js_builtins \<Rightarrow> jsval \<Rightarrow> jsnum" where
  "js_Number js (JNum n) = n"
| "js_Number js (JStr s) = string_to_number js s"
| "js_Number js _ = NaN"

fun js_String :: "js_builtins \<Rightarrow> jsval \<Rightarrow> string" where
  "js_String js (JStr s) = s"
| "js_String js (JNum n) = number_to_string js n"
| "js_String js _ = []"

text \<open>
  One iteration of the loop of \<^verbatim>\<open>checkFilters\<close>: \<open>True\<close> when the \<^verbatim>\<open>switch\<close> reaches its
  \<^verbatim>\<open>break\<close> (or has no case for the operator), \<open>False\<close> when it returns \<^verbatim>\<open>false\<close>.
\<close>

definition check_condition :: "js_builtins \<Rightarrow> jsrecord \<Rightarrow> filter_condition \<Rightarrow> bool" where
  "check_condition js record condition =
     (let v = js_get record (field condition) in
      if operator condition = ''eq'' then
        (if \<not> js_strict_eq v (cvalue condition) then False else True)
      else if operator condition = ''ne'' then
        (if js_strict_eq v (cvalue condition) then False else True)
      else if operator condition = ''gt'' then
        (case v of
           JNum n \<Rightarrow> if num_le n (js_Number js (cvalue condition)) then False else True
         | _ \<Rightarrow> False)
      else if operator condition = ''lt'' then
        (case v of
           JNum n \<Rightarrow> if num_ge n (js_Number js (cvalue condition)) then False else True
         | _ \<Rightarrow> False)
      else if operator condition = ''contains'' then
        (case v of
           JStr s \<Rightarrow> if \<not> js_includes s (js_String js (cvalue condition)) then False else True
         | _ \<Rightarrow> False)
      else if operator condition = ''not_contains'' then
        (case v of
           JStr s \<Rightarrow> if js_includes s (js_String js (cvalue condition)) then False else True
         | _ \<Rightarrow> False)
      else True)"

fun checkFilters_loop :: "js_builtins \<Rightarrow> jsrecord \<Rightarrow> filter_condition list \<Rightarrow> bool" where
  "checkFilters_loop js record [] = True"
| "checkFilters_loop js record (condition # conditions) =
     (if \<not> check_condition js record condition then False
      else checkFilters_loop js record conditions)"

definition checkFilters :: "js_builtins \<Rightarrow> jsrecord \<Rightarrow> filter_condition list option \<Rightarrow> bool" where
  "checkFilters js record conditions =
     (case conditions of None \<Rightarrow> True | Some cs \<Rightarrow> checkFilters_loop js record cs)"

section \<open>Record codec (parseSourceData, convertToOutputFormat)\<close>

text \<open>\<^verbatim>\<open>content.split('\n')\<close> and \<^verbatim>\<open>lines.join('\n')\<close>.\<close>

fun js_split :: "char \<Rightarrow> string \<Rightarrow> string list" where
  "js_split sep [] = [[]]"
| "js_split sep (c # cs) =
     (if c = sep then [] # js_split sep cs
      else (case js_split sep cs of [] \<Rightarrow> [[c]] | l # ls \<Rightarrow> (c # l) # ls))"

fun js_join :: "string \<Rightarrow> string list \<Rightarrow> string" where
  "js_join sep [] = []"
| "js_join sep [x] = x"
| "js_join sep (x # y # ys) = x @ sep @ js_join sep (y # ys)"

text \<open>
  \<^verbatim>\<open>line.trim()\<close> removes white space and line terminators at both ends; the characters
  below are those of them that fit a \<^typ>\<open>char\<close>. The trimmed line is truthy when it is
  not empty.
\<close>

definition is_js_space :: "char \<Rightarrow> bool" where
  "is_js_space c \<longleftrightarrow>
     c \<in> {CHR 0x09, CHR 0x0A, CHR 0x0B, CHR 0x0C, CHR 0x0D, CHR 0x20, CHR 0xA0}"

definition js_trim :: "string \<Rightarrow> string" where
  "js_trim s = rev (dropWhile is_js_space (rev (dropWhile is_js_space s)))"

text \<open>
  \<^verbatim>\<open>parseSourceData\<close>. The buffer is read as the text it holds. The result is whatever
  the parser returns; TypeScript types it as an array of records without a check.
\<close>

definition parse_lines :: "js_builtins \<Rightarrow> string list \<Rightarrow> js_error + jsval list" where
  "parse_lines js ls =
     fold (\<lambda>line acc.
        case acc of
          Inl e \<Rightarrow> Inl e
        | Inr vs \<Rightarrow> (case json_parse js line of Inl msg \<Rightarrow> Inl (Error msg) | Inr v \<Rightarrow> Inr (vs @ [v])))
       ls (Inr [])"

definition parseSourceData :: "js_builtins \<Rightarrow> string \<Rightarrow> string \<Rightarrow> js_error + jsval" where
  "parseSourceData js content format =
     (if format = ''json'' then
        (case json_parse js content of Inl msg \<Rightarrow> Inl (Error msg) | Inr v \<Rightarrow> Inr v)
      else if format = ''jsonl'' then
        (case parse_lines js (filter (\<lambda>line. js_trim line \<noteq> []) (js_split CHR 0x0A content)) of
           Inl e \<Rightarrow> Inl e
         | Inr vs \<Rightarrow> Inr (JArr vs))
      else if format = ''csv'' then
        (case csv_parse js content of Inl msg \<Rightarrow> Inl (Error msg) | Inr v \<Rightarrow> Inr v)
      else Inl (Error (''Unsupported format: '' @ format)))"

definition convertToOutputFormat :: "js_builtins \<Rightarrow> jsval list \<Rightarrow> string \<Rightarrow> js_error + string" where
  "convertToOutputFormat js records format =
     (if format = ''json'' then Inr (json_stringify_pretty js (JArr records))
      else if format = ''jsonl'' then Inr (js_join [CHR 0x0A] (map (json_stringify js) records))
      else if format = ''csv'' then Inr (csv_stringify js records)
      else Inl (Error (''Unsupported output format: '' @ format)))"

definition getContentType :: "string \<Rightarrow> string" where
  "getContentType format =
     (if format = ''json'' then ''application/json''
      else if format = ''jsonl'' then ''application/x-ndjson''
      else if format = ''csv'' then ''text/csv''
      else ''application/octet-stream'')"

section \<open>Tables, queue state and job processing\<close>

datatype job_status = Pending | Processing | Completed | Failed | Cancelled

text \<open>
  The rows of the tables, with the columns of the schema that the controller and the queue
  service read or write. The schema is the one the service imports
  (\<^verbatim>\<open>import { processingJobs, dataSources, datasets } from '../db/schema'\<close>); a query returns
  rows with the columns it declares. A data source stores the place of its file in
  \<^verbatim>\<open>filePath\<close>.
\<close>

record job_row =
  job_id :: nat
  projectId :: nat
  schemaMappingId :: "nat option"
  dataSourceId :: nat
  status :: job_status
  progress :: int
  outputFormat :: string
  outputName :: string
  inputRecordCount :: "nat option"
  outputRecordCount :: "nat option"
  piiDetectedCount :: "nat option"
  filteredOutCount :: "nat option"
  errorMessage :: "string option"
  startedAt :: "nat option"
  completedAt :: "nat option"
  createdAt :: nat

record project_row =
  p_id :: nat
  p_organisationId :: nat
  p_deletedAt :: "nat option"

record data_source_row =
  ds_id :: nat
  ds_projectId :: nat
  ds_name :: string
  ds_format :: string
  ds_filePath :: "string option"
  ds_recordCount :: "nat option"
  ds_status :: string
  ds_deletedAt :: "nat option"

record schema_mapping_row =
  sm_id :: nat
  sm_projectId :: nat

record audit_log_row =
  al_organisationId :: nat
  al_userId :: nat
  al_action :: string
  al_resourceType :: string
  al_resourceId :: nat

text \<open>The messages given to \<^verbatim>\<open>addLog\<close> (without the time stamp) and the events emitted.\<close>

datatype log_entry =
    LogEnqueued
  | LogCancelledByUser
  | LogStarted
  | LogDataSource string
  | LogOutputFormat string
  | LogFailed string

datatype job_event =
    EvFailed nat string
  | EvCancelled nat

text \<open>
  The database tables and the fields of the \<^verbatim>\<open>ProcessingQueue\<close> singleton. \<open>jobs\<close> lists the
  rows of \<^verbatim>\<open>processing_jobs\<close>. \<open>activeJobs\<close> holds the keys of the map of that name, and
  \<open>aborted\<close> the ids of the jobs whose \<^verbatim>\<open>AbortController\<close> has been aborted: \<^verbatim>\<open>processJob\<close>
  keeps its controller after \<^verbatim>\<open>cancel\<close> has removed it from the map. \<open>writes\<close> records, in
  order, every row version that an \<^verbatim>\<open>UPDATE\<close> of \<^verbatim>\<open>processing_jobs\<close> has stored.
\<close>

record world =
  jobs :: "job_row list"
  projects :: "project_row list"
  dataSources :: "data_source_row list"
  schemaMappings :: "schema_mapping_row list"
  auditLogs :: "audit_log_row list"
  isProcessing :: bool
  activeJobs :: "nat list"
  aborted :: "nat list"
  jobLogs :: "nat \<Rightarrow> log_entry list"
  emitted :: "job_event list"
  writes :: "job_row list"

text \<open>\<^verbatim>\<open>db.update(processingJobs).set(...).where(eq(processingJobs.id, jobId))\<close>.\<close>

definition update_job :: "nat \<Rightarrow> (job_row \<Rightarrow> job_row) \<Rightarrow> world \<Rightarrow> world" where
  "update_job jobId f w =
     w\<lparr>jobs := map (\<lambda>j. if job_id j = jobId then f j else j) (jobs w),
       writes := writes w @ map f (filter (\<lambda>j. job_id j = jobId) (jobs w))\<rparr>"

definition addLog :: "nat \<Rightarrow> log_entry \<Rightarrow> world \<Rightarrow> world" where
  "addLog jobId message w =
     (let logs = jobLogs w jobId @ [message];
          logs' = (if length logs > 1000 then drop (length logs - 1000) logs else logs)
      in w\<lparr>jobLogs := (jobLogs w)(jobId := logs')\<rparr>)"

definition emit :: "job_event \<Rightarrow> world \<Rightarrow> world" where
  "emit e w = w\<lparr>emitted := emitted w @ [e]\<rparr>"

text \<open>
  \<^verbatim>\<open>processQueue\<close> up to its first \<^verbatim>\<open>await\<close>, which is all of it that runs inside
  \<^verbatim>\<open>enqueue\<close>: the loop is entered unless it is running already.
\<close>

definition processQueue_start :: "world \<Rightarrow> world" where
  "processQueue_start w = (if isProcessing w then w else w\<lparr>isProcessing := True\<rparr>)"

definition enqueue :: "nat \<Rightarrow> world \<Rightarrow> world" where
  "enqueue jobId w =
     processQueue_start (addLog jobId LogEnqueued (update_job jobId (\<lambda>j. j\<lparr>status := Pending\<rparr>) w))"

text \<open>
  \<^verbatim>\<open>processJob\<close> and \<^verbatim>\<open>cancel\<close> are \<^verbatim>\<open>async\<close> functions. Such a function runs without
  interruption up to its next \<^verbatim>\<open>await\<close>; while it waits, other code runs. In both
  functions every \<^verbatim>\<open>await\<close> that is reached waits for one statement sent to the database.
  So each of them advances in steps of two kinds, which alternate: the code between two
  \<^verbatim>\<open>await\<close>s, which ends by sending a statement, and the execution of that statement by
  the database. The values of \<open>job_pc\<close> and \<open>cancel_pc\<close> are the places between the steps;
  they carry the local values that later steps use. \<^verbatim>\<open>new Date()\<close> is read in the code
  that builds a statement, so the time is kept until the statement is executed.

  The places of \<^verbatim>\<open>processJob\<close>: before the call; the update that marks the job as processing
  has been sent (with its \<^verbatim>\<open>startedAt\<close>); it has been executed; the query for the job has
  been sent; it has returned; the query for the data source has been sent; it has
  returned; the update of the \<^verbatim>\<open>catch\<close> block has been sent (with the message and its
  \<^verbatim>\<open>completedAt\<close>); it has been executed; the function has returned.
\<close>

datatype job_pc =
    JobStart
  | JobMarking nat
  | JobMarked
  | JobReading
  | JobRead "job_row option"
  | DataSourceReading job_row
  | DataSourceRead job_row "data_source_row option"
  | FailureStoring string nat
  | FailureStored string
  | JobDone

text \<open>
  The \<^verbatim>\<open>catch\<close> block up to its \<^verbatim>\<open>await\<close>. Every error thrown in the \<^verbatim>\<open>try\<close> block reached
  here is an \<^verbatim>\<open>Error\<close>, so \<^verbatim>\<open>errorMessage\<close> is its message.
\<close>

definition catch_block :: "nat \<Rightarrow> string \<Rightarrow> nat \<Rightarrow> world \<Rightarrow> job_pc \<times> world" where
  "catch_block jobId msg now w = (FailureStoring msg now, addLog jobId (LogFailed msg) w)"

text \<open>
  \<^verbatim>\<open>config.outputFormat\<close>. The table \<^verbatim>\<open>processing_jobs\<close> has no column \<^verbatim>\<open>config\<close>, so
  \<^verbatim>\<open>job.config\<close> is \<^verbatim>\<open>undefined\<close> and \<^verbatim>\<open>config\<close> is the object after \<^verbatim>\<open>||\<close>, whose output
  format is \<^verbatim>\<open>job.outputFormat || 'jsonl'\<close>.
\<close>

definition config_outputFormat :: "job_row \<Rightarrow> string" where
  "config_outputFormat job = (if outputFormat job \<noteq> [] then outputFormat job else ''jsonl'')"

text \<open>
  One step of \<^verbatim>\<open>processJob(jobId)\<close>, taken at time \<open>now\<close>.

  The table \<^verbatim>\<open>data_sources\<close> has no column \<^verbatim>\<open>s3Key\<close> either: on every row that the query
  returns, \<^verbatim>\<open>dataSource.s3Key\<close> is \<^verbatim>\<open>undefined\<close>, the test \<^verbatim>\<open>!sourceKey\<close> holds and the
  function throws \<^verbatim>\<open>Error('Data source has no S3 key')\<close>. The statements of the \<^verbatim>\<open>try\<close>
  block after this test (download, batches, upload, completion) are never reached; no
  step stands for them.
\<close>

fun processJob_step :: "nat \<Rightarrow> nat \<Rightarrow> job_pc \<Rightarrow> world \<Rightarrow> job_pc \<times> world" where
  "processJob_step jobId now JobStart w =
     (JobMarking now,
      w\<lparr>activeJobs := (if jobId \<in> set (activeJobs w) then activeJobs w
                        else activeJobs w @ [jobId]),
        aborted := removeAll jobId (aborted w)\<rparr>)"
| "processJob_step jobId now (JobMarking t) w =
     (JobMarked,
      update_job jobId (\<lambda>j. j\<lparr>status := Processing, startedAt := Some t, progress := 0\<rparr>) w)"
| "processJob_step jobId now JobMarked w =
     (JobReading, addLog jobId LogStarted w)"
| "processJob_step jobId now JobReading w =
     (JobRead (find (\<lambda>j. job_id j = jobId) (jobs w)), w)"
| "processJob_step jobId now (JobRead None) w =
     catch_block jobId ''Job not found'' now w"
| "processJob_step jobId now (JobRead (Some job)) w =
     (DataSourceReading job, w)"
| "processJob_step jobId now (DataSourceReading job) w =
     (DataSourceRead job (find (\<lambda>d. ds_id d = dataSourceId job) (dataSources w)), w)"
| "processJob_step jobId now (DataSourceRead job None) w =
     catch_block jobId ''Data source not found'' now w"
| "processJob_step jobId now (DataSourceRead job (Some dataSource)) w =
     (let w1 = addLog jobId (LogDataSource (ds_name dataSource)) w;
          w2 = addLog jobId (LogOutputFormat (config_outputFormat job)) w1
      in catch_block jobId ''Data source has no S3 key'' now w2)"
| "processJob_step jobId now (FailureStoring msg t) w =
     (FailureStored msg,
      update_job jobId
        (\<lambda>j. j\<lparr>status := Failed, completedAt := Some t, errorMessage := Some msg\<rparr>) w)"
| "processJob_step jobId now (FailureStored msg) w =
     (JobDone,
      let w1 = emit (EvFailed jobId msg) w
      in w1\<lparr>activeJobs := removeAll jobId (activeJobs w1)\<rparr>)"
| "processJob_step jobId now JobDone w = (JobDone, w)"

text \<open>
  The places of \<^verbatim>\<open>cancel\<close>: before the call; the update has been sent (with its
  \<^verbatim>\<open>completedAt\<close>); it has been executed; the function has returned, with its result.
\<close>

datatype cancel_pc =
    CancelStart
  | CancelStoring nat
  | CancelStored
  | CancelDone bool

fun cancel_step :: "nat \<Rightarrow> nat \<Rightarrow> cancel_pc \<Rightarrow> world \<Rightarrow> cancel_pc \<times> world" where
  "cancel_step jobId now CancelStart w =
     (if jobId \<in> set (activeJobs w)
      then (CancelStoring now,
            w\<lparr>aborted := jobId # aborted w, activeJobs := removeAll jobId (activeJobs w)\<rparr>)
      else (CancelDone False, w))"
| "cancel_step jobId now (CancelStoring t) w =
     (CancelStored,
      update_job jobId (\<lambda>j. j\<lparr>status := Cancelled, completedAt := Some t\<rparr>) w)"
| "cancel_step jobId now CancelStored w =
     (CancelDone True, emit (EvCancelled jobId) (addLog jobId LogCancelledByUser w))"
| "cancel_step jobId now (CancelDone result) w = (CancelDone result, w)"

text \<open>
  A run of one call of \<^verbatim>\<open>processJob(jobId)\<close> together with one call of \<^verbatim>\<open>cancel(jobId)\<close>.
  A schedule says, step by step, which of the two advances and at what time; a function
  that has returned does not advance. The first \<open>RunJob\<close> is the call of \<^verbatim>\<open>processJob\<close> by
  the scheduler, the first \<open>RunCancel\<close> the call of \<^verbatim>\<open>cancel\<close>.
\<close>

datatype actor = RunJob | RunCancel

record run_state =
  job_at :: job_pc
  cancel_at :: cancel_pc
  state :: world

definition run_step :: "nat \<Rightarrow> actor \<times> nat \<Rightarrow> run_state \<Rightarrow> run_state" where
  "run_step jobId a st =
     (case a of
        (RunJob, now) \<Rightarrow>
          (case processJob_step jobId now (job_at st) (state st) of
             (pc, w) \<Rightarrow> st\<lparr>job_at := pc, state := w\<rparr>)
      | (RunCancel, now) \<Rightarrow>
          (case cancel_step jobId now (cancel_at st) (state st) of
             (pc, w) \<Rightarrow> st\<lparr>cancel_at := pc, state := w\<rparr>))"

definition run :: "nat \<Rightarrow> (actor \<times> nat) list \<Rightarrow> run_state \<Rightarrow> run_state" where
  "run jobId schedule st = fold (run_step jobId) schedule st"

definition initially :: "world \<Rightarrow> run_state" where
  "initially w = \<lparr>job_at = JobStart, cancel_at = CancelStart, state = w\<rparr>"


section \<open>The scheduler's claim step (processQueue)\<close>

definition concurrency :: nat where
  "concurrency = 2"

text \<open>
  \<^verbatim>\<open>db.select().from(processingJobs).where(eq(status, 'pending')).limit(availableSlots)\<close>.
  The query has no \<^verbatim>\<open>ORDER BY\<close>: the database returns the rows of the table in an order
  of its own choosing, given here by \<open>scan\<close>.
\<close>

definition select_pending :: "(job_row list \<Rightarrow> job_row list) \<Rightarrow> world \<Rightarrow> nat \<Rightarrow> job_row list" where
  "select_pending scan w limit = take limit (filter (\<lambda>j. status j = Pending) (scan (jobs w)))"

datatype queue_step = Wait | Stop | Claim "job_row list"

text \<open>
  One iteration of the loop of \<^verbatim>\<open>processQueue\<close>: wait when no slot is free, stop when no
  job is pending, otherwise start \<^verbatim>\<open>processJob\<close> for every job selected.
\<close>

definition processQueue_step :: "(job_row list \<Rightarrow> job_row list) \<Rightarrow> world \<Rightarrow> queue_step" where
  "processQueue_step scan w =
     (let availableSlots = int concurrency - int (length (activeJobs w)) in
      if availableSlots \<le> 0 then Wait
      else
        (let pendingJobs = select_pending scan w (nat availableSlots) in
         if length pendingJobs = 0 then Stop else Claim pendingJobs))"

section \<open>Job submission (jobs controller, create)\<close>

datatype http_error = BadRequestError string | NotFoundError string | ForbiddenError

text \<open>
  The request as \<^verbatim>\<open>create\<close> reads it. \<open>body_projectId\<close> is \<open>None\<close> when
  \<^verbatim>\<open>req.body.projectId\<close> is falsy, and otherwise holds
  \<^verbatim>\<open>parseInt(String(req.body.projectId), 10)\<close>, with \<open>None\<close> for NaN.
\<close>

record create_request =
  body_projectId :: "int option option"
  body_dataSourceId :: nat
  body_schemaMappingId :: "nat option"
  body_outputFormat :: "string option"
  body_outputName :: "string option"
  user_id :: nat
  user_organisationId :: nat

definition parseIntParam :: "int option \<Rightarrow> string \<Rightarrow> http_error + nat" where
  "parseIntParam parsed paramName =
     (case parsed of
        None \<Rightarrow> Inl (BadRequestError (paramName @ '' must be a positive integer''))
      | Some n \<Rightarrow>
          if n \<le> 0 then Inl (BadRequestError (paramName @ '' must be a positive integer''))
          else Inr (nat n))"

function show_nat :: "nat \<Rightarrow> string" where
  "show_nat n =
     (if n < 10 then [char_of (48 + n)] else show_nat (n div 10) @ [char_of (48 + n mod 10)])"
  by pat_completeness auto
termination
  by (relation "measure id") auto

declare show_nat.simps [simp del]

definition next_job_id :: "world \<Rightarrow> nat" where
  "next_job_id w = Suc (fold max (map job_id (jobs w)) 0)"

definition create :: "nat \<Rightarrow> create_request \<Rightarrow> world \<Rightarrow> (http_error + job_row) \<times> world" where
  "create time req w =
     (case body_projectId req of
        None \<Rightarrow> (Inl (BadRequestError ''projectId is required''), w)
      | Some raw \<Rightarrow>
     (case parseIntParam raw ''projectId'' of
        Inl e \<Rightarrow> (Inl e, w)
      | Inr pid \<Rightarrow>
     (case find (\<lambda>p. p_id p = pid \<and> p_deletedAt p = None) (projects w) of
        None \<Rightarrow> (Inl (NotFoundError ''Project''), w)
      | Some project \<Rightarrow>
     if p_organisationId project \<noteq> user_organisationId req then (Inl ForbiddenError, w)
     else
     (case find (\<lambda>d. ds_id d = body_dataSourceId req \<and> ds_projectId d = pid \<and> ds_deletedAt d = None)
             (dataSources w) of
        None \<Rightarrow> (Inl (NotFoundError ''Data source''), w)
      | Some ds \<Rightarrow>
     if ds_status ds \<noteq> ''ready''
     then (Inl (BadRequestError ''Data source is not ready for processing''), w)
     else
     (let mappingId = (case body_schemaMappingId req of
                         None \<Rightarrow> None
                       | Some m \<Rightarrow> if m = 0 then None else Some m)
      in if (case mappingId of
               None \<Rightarrow> False
             | Some m \<Rightarrow> find (\<lambda>x. sm_id x = m \<and> sm_projectId x = pid) (schemaMappings w) = None)
         then (Inl (NotFoundError ''Schema mapping''), w)
         else
           (let job = \<lparr>job_id = next_job_id w,
                       projectId = pid,
                       schemaMappingId = mappingId,
                       dataSourceId = body_dataSourceId req,
                       status = Pending,
                       progress = 0,
                       outputFormat = or_default (body_outputFormat req) ''jsonl'',
                       outputName = (case body_outputName req of
                                       None \<Rightarrow> ''export-'' @ show_nat time
                                     | Some n \<Rightarrow> if n = [] then ''export-'' @ show_nat time else n),
                       inputRecordCount = Some (or_default (ds_recordCount ds) 0),
                       outputRecordCount = None,
                       piiDetectedCount = None,
                       filteredOutCount = None,
                       errorMessage = None,
                       startedAt = None,
                       completedAt = None,
                       createdAt = time\<rparr>;
                w1 = w\<lparr>jobs := jobs w @ [job]\<rparr>;
                w2 = w1\<lparr>auditLogs := auditLogs w1 @
                         [\<lparr>al_organisationId = user_organisationId req,
                           al_userId = user_id req,
                           al_action = ''job.create'',
                           al_resourceType = ''job'',
                           al_resourceId = job_id job\<rparr>]\<rparr>
            in (Inr job, w2)))))))"

section \<open>Notions of the specification\<close>






text \<open>
  What it means to satisfy one filter condition, read off the operator's name. \<^verbatim>\<open><\<close> on
  numbers is false whenever an operand is NaN.
\<close>

fun num_lt :: "jsnum \<Rightarrow> jsnum \<Rightarrow> bool" where
  "num_lt NaN _ = False"
| "num_lt _ NaN = False"
| "num_lt PosInf _ = False"
| "num_lt _ NegInf = False"
| "num_lt (Fin a) (Fin b) = (a < b)"
| "num_lt NegInf (Fin b) = True"
| "num_lt NegInf PosInf = True"
| "num_lt (Fin a) PosInf = True"

definition satisfies :: "js_builtins \<Rightarrow> jsrecord \<Rightarrow> filter_condition \<Rightarrow> bool" where
  "satisfies js record c =
     (let v = js_get record (field c) in
      if operator c = ''eq'' then js_strict_eq v (cvalue c)
      else if operator c = ''ne'' then \<not> js_strict_eq v (cvalue c)
      else if operator c = ''gt'' then
        (case v of JNum n \<Rightarrow> num_lt (js_Number js (cvalue c)) n | _ \<Rightarrow> False)
      else if operator c = ''lt'' then
        (case v of JNum n \<Rightarrow> num_lt n (js_Number js (cvalue c)) | _ \<Rightarrow> False)
      else if operator c = ''contains'' then
        (case v of JStr s \<Rightarrow> js_includes s (js_String js (cvalue c)) | _ \<Rightarrow> False)
      else if operator c = ''not_contains'' then
        (case v of JStr s \<Rightarrow> \<not> js_includes s (js_String js (cvalue c)) | _ \<Rightarrow> False)
      else True)"

text \<open>The operators of the union type in \<^verbatim>\<open>ProcessingJobConfig\<close>, which are the cases of the switch.\<close>

definition supported_operators :: "string set" where
  "supported_operators = {''eq'', ''ne'', ''gt'', ''lt'', ''contains'', ''not_contains''}"

text \<open>Encoding a record sequence and decoding the result, in one format.\<close>

definition decode_encode :: "js_builtins \<Rightarrow> jsval list \<Rightarrow> string \<Rightarrow> js_error + jsval" where
  "decode_encode js R f =
     (case convertToOutputFormat js R f of Inl e \<Rightarrow> Inl e | Inr s \<Rightarrow> parseSourceData js s f)"

text \<open>
  Oldest first: no job is claimed while a pending job created before it is left unclaimed.
\<close>

definition oldest_first :: "job_row list \<Rightarrow> job_row list \<Rightarrow> bool" where
  "oldest_first table claimed \<longleftrightarrow>
     (\<forall>c \<in> set claimed. \<forall>p \<in> set table.
        status p = Pending \<and> p \<notin> set claimed \<longrightarrow> createdAt c \<le> createdAt p)"

section \<open>Notions used in the proofs about runs\<close>


fun cancel_stored :: "cancel_pc \<Rightarrow> bool" where
  "cancel_stored CancelStored = True"
| "cancel_stored (CancelDone result) = result"
| "cancel_stored _ = False"

fun failure_pending :: "job_pc \<Rightarrow> bool" where
  "failure_pending (FailureStored msg) = False"
| "failure_pending JobDone = False"
| "failure_pending _ = True"

fun marked :: "job_pc \<Rightarrow> bool" where
  "marked JobStart = False"
| "marked (JobMarking t) = False"
| "marked _ = True"

text \<open>The rows of one job, and the rows written since the state \<open>w\<close>.\<close>

definition rows_of :: "nat \<Rightarrow> world \<Rightarrow> job_row list" where
  "rows_of jobId w = filter (\<lambda>j. job_id j = jobId) (jobs w)"

definition written_since :: "world \<Rightarrow> world \<Rightarrow> job_row list" where
  "written_since w w' = drop (length (writes w)) (writes w')"

text \<open>
  The number of steps that \<^verbatim>\<open>processJob\<close> has left at most, and the properties that every
  step of a run preserves: once the update of \<^verbatim>\<open>cancel\<close> has been executed, the rows are
  failed as soon as the update of the \<^verbatim>\<open>catch\<close> block has been; the statuses a row can
  have once the job is marked and once the failure is stored; what the updates have
  written; that progress stays at 0; and, for a run of \<^verbatim>\<open>processJob\<close> alone, the message it
  fails with.
\<close>

definition failed_after_cancel :: "nat \<Rightarrow> run_state \<Rightarrow> bool" where
  "failed_after_cancel i st \<longleftrightarrow>
     cancel_stored (cancel_at st) \<and>
     (failure_pending (job_at st) \<or> list_all (\<lambda>j. status j = Failed) (rows_of i (state st)))"

definition status_inv :: "nat \<Rightarrow> run_state \<Rightarrow> bool" where
  "status_inv i st \<longleftrightarrow>
     (\<not> marked (job_at st) \<or>
        list_all (\<lambda>j. status j = Processing \<or> status j = Cancelled \<or> status j = Failed)
          (rows_of i (state st)))
     \<and> (failure_pending (job_at st) \<or>
        list_all (\<lambda>j. status j = Cancelled \<or> status j = Failed) (rows_of i (state st)))"

fun steps_left :: "job_pc \<Rightarrow> nat" where
  "steps_left JobStart = 9"
| "steps_left (JobMarking t) = 8"
| "steps_left JobMarked = 7"
| "steps_left JobReading = 6"
| "steps_left (JobRead found) = 5"
| "steps_left (DataSourceReading job) = 4"
| "steps_left (DataSourceRead job found) = 3"
| "steps_left (FailureStoring msg t) = 2"
| "steps_left (FailureStored msg) = 1"
| "steps_left JobDone = 0"

definition hist_inv :: "world \<Rightarrow> nat \<Rightarrow> run_state \<Rightarrow> bool" where
  "hist_inv w i st \<longleftrightarrow>
     length (writes w) \<le> length (writes (state st))
     \<and> length (rows_of i (state st)) = length (rows_of i w)
     \<and> list_all (\<lambda>r. status r \<noteq> Completed) (written_since w (state st))
     \<and> (cancel_stored (cancel_at st) \<longrightarrow>
          rows_of i (state st) = [] \<or> Cancelled \<in> set (map status (written_since w (state st))))"


fun reason_ok :: "job_pc \<Rightarrow> job_row list \<Rightarrow> bool" where
  "reason_ok (FailureStoring msg t) rows \<longleftrightarrow>
     msg = ''Job not found'' \<and> rows = []
     \<or> msg = ''Data source not found'' \<or> msg = ''Data source has no S3 key''"
| "reason_ok (JobRead None) rows \<longleftrightarrow> rows = []"
| "reason_ok pc rows \<longleftrightarrow> True"


section \<open>Example inputs\<close>


definition demo_env :: pii_env where
  "demo_env =
     \<lparr>regex_of = (\<lambda>k text.
         if k = ''email'' \<and> text = ''http://a.io/x@b.co'' then [(12, ''x@b.co'')]
         else if k = ''url'' \<and> text = ''http://a.io/x@b.co'' then [(0, ''http://a.io/x@b.co'')]
         else if k = ''email'' \<and> text = ''x@b.co'' then [(0, ''x@b.co'')]
         else if k = ''email'' \<and> text = ''x@b.co, y@c.io'' then [(0, ''x@b.co''), (8, ''y@c.io'')]
         else []),
      people = (\<lambda>text. if text = ''Jane Doe'' then [''Jane Doe''] else []),
      places = (\<lambda>text. [])\<rparr>"


definition mail_label_options :: redact_options where
  "mail_label_options =
     \<lparr>redactionChar = None, preserveLength = None,
      redactionLabels = Some (map_of [(''email'', ''<mail>'')])\<rparr>"

text \<open>
  The runtime's functions on the values of the examples: \<^verbatim>\<open>Number\<close> and \<^verbatim>\<open>String\<close> on 18,
  and the JSON functions on the records of the example source, on its text and on the
  pretty-printed array of its last record.
\<close>

definition demo_records :: "jsval list" where
  "demo_records =
     [JObj [(''name'', JStr ''Jane Doe''), (''email'', JStr ''x@b.co'')],
      JObj [(''name'', JStr ''n/a''), (''age'', JNum (Fin 17))],
      JObj [(''age'', JNum (Fin 25))]]"

definition demo_lines :: "string list" where
  "demo_lines =
     [[CHR ''{'', CHR 0x22] @ ''name'' @ [CHR 0x22, CHR '':'', CHR 0x22] @ ''Jane Doe''
        @ [CHR 0x22, CHR '','', CHR 0x22] @ ''email'' @ [CHR 0x22, CHR '':'', CHR 0x22] @ ''x@b.co''
        @ [CHR 0x22, CHR ''}''],
      [CHR ''{'', CHR 0x22] @ ''name'' @ [CHR 0x22, CHR '':'', CHR 0x22] @ ''n/a''
        @ [CHR 0x22, CHR '','', CHR 0x22] @ ''age'' @ [CHR 0x22, CHR '':''] @ ''17}'',
      [CHR ''{'', CHR 0x22] @ ''age'' @ [CHR 0x22, CHR '':''] @ ''25}'']"

definition demo_source :: string where
  "demo_source = ''['' @ demo_lines ! 0 @ '','' @ demo_lines ! 1 @ '','' @ demo_lines ! 2 @ '']''"

definition demo_pretty :: string where
  "demo_pretty =
     ''['' @ [CHR 0x0A] @ ''  {'' @ [CHR 0x0A] @ ''    '' @ [CHR 0x22] @ ''age'' @ [CHR 0x22]
       @ '': 25'' @ [CHR 0x0A] @ ''  }'' @ [CHR 0x0A] @ '']''"

definition demo_js :: js_builtins where
  "demo_js =
     \<lparr>string_to_number = (\<lambda>s. if s = ''18'' then Fin 18 else NaN),
      number_to_string = (\<lambda>n. if n = Fin 18 then ''18'' else ''NaN''),
      json_stringify = (\<lambda>v.
         if v = demo_records ! 0 then demo_lines ! 0
         else if v = demo_records ! 1 then demo_lines ! 1
         else if v = demo_records ! 2 then demo_lines ! 2
         else ''null''),
      json_stringify_pretty = (\<lambda>v. if v = JArr [demo_records ! 2] then demo_pretty else ''null''),
      json_parse = (\<lambda>s.
         if s = demo_lines ! 0 then Inr (demo_records ! 0)
         else if s = demo_lines ! 1 then Inr (demo_records ! 1)
         else if s = demo_lines ! 2 then Inr (demo_records ! 2)
         else if s = demo_pretty then Inr (JArr [demo_records ! 2])
         else if s = demo_source then Inr (JArr demo_records)
         else Inl ''Unexpected token''),
      csv_parse = (\<lambda>s. Inl ''Invalid Record Length''),
      csv_stringify = (\<lambda>rs. [])\<rparr>"

definition adult_us :: "filter_condition list" where
  "adult_us =
     [\<lparr>field = ''age'', operator = ''gt'', cvalue = JNum (Fin 18)\<rparr>,
      \<lparr>field = ''country'', operator = ''eq'', cvalue = JStr ''US''\<rparr>]"

definition adult_us_gte :: "filter_condition list" where
  "adult_us_gte =
     [\<lparr>field = ''age'', operator = ''gte'', cvalue = JNum (Fin 18)\<rparr>,
      \<lparr>field = ''country'', operator = ''eq'', cvalue = JStr ''US''\<rparr>]"

text \<open>
  A project with a ready data source and one that is not ready, and the request that
  submits a job for the first. The job rows are those that \<^verbatim>\<open>create\<close> inserts.
\<close>

definition demo_world :: world where
  "demo_world =
     \<lparr>jobs = [],
      projects = [\<lparr>p_id = 1, p_organisationId = 1, p_deletedAt = None\<rparr>],
      dataSources =
        [\<lparr>ds_id = 1, ds_projectId = 1, ds_name = ''people'', ds_format = ''json'',
          ds_filePath = Some ''org/sources/people.json'', ds_recordCount = None,
          ds_status = ''ready'', ds_deletedAt = None\<rparr>,
         \<lparr>ds_id = 2, ds_projectId = 1, ds_name = ''upload'', ds_format = ''csv'',
          ds_filePath = None, ds_recordCount = None,
          ds_status = ''pending'', ds_deletedAt = None\<rparr>],
      schemaMappings = [],
      auditLogs = [],
      isProcessing = False,
      activeJobs = [],
      aborted = [],
      jobLogs = (\<lambda>jobId. []),
      emitted = [],
      writes = []\<rparr>"

definition demo_request :: create_request where
  "demo_request =
     \<lparr>body_projectId = Some (Some 1),
      body_dataSourceId = 1,
      body_schemaMappingId = None,
      body_outputFormat = None,
      body_outputName = Some ''people-clean'',
      user_id = 5,
      user_organisationId = 1\<rparr>"

definition demo_job :: "nat \<Rightarrow> nat \<Rightarrow> job_row" where
  "demo_job n time =
     \<lparr>job_id = n, projectId = 1, schemaMappingId = None, dataSourceId = 1, status = Pending,
      progress = 0, outputFormat = ''jsonl'', outputName = ''people-clean'',
      inputRecordCount = Some 0, outputRecordCount = None, piiDetectedCount = None,
      filteredOutCount = None, errorMessage = None, startedAt = None, completedAt = None,
      createdAt = time\<rparr>"

text \<open>Two pending jobs and one running job that holds a slot.\<close>

definition demo_queue_world :: world where
  "demo_queue_world = demo_world\<lparr>jobs := [demo_job 1 10, demo_job 2 20], activeJobs := [7]\<rparr>"

text \<open>
  \<open>demo_submitted\<close> is the state after the job has been submitted. In \<open>demo_counted\<close>
  the data source is known to hold ten records, and \<open>demo_counted_submitted\<close> is the state
  after a job has been submitted for it.
\<close>

definition demo_submitted :: world where
  "demo_submitted = snd (create 10 demo_request demo_world)"



text \<open>
  Schedules. With \<open>cancel_early\<close> the scheduler starts the job, the update that marks it
  as processing is executed, and then \<^verbatim>\<open>cancel\<close> is called and runs to its end before
  \<^verbatim>\<open>processJob\<close> goes on. With \<open>cancel_late\<close>, \<^verbatim>\<open>cancel\<close> is called when the \<^verbatim>\<open>catch\<close> block
  has sent its update, and the database executes that update before the update of
  \<^verbatim>\<open>cancel\<close>.
\<close>

definition cancel_early :: "(actor \<times> nat) list" where
  "cancel_early =
     [(RunJob, 30), (RunJob, 31),
      (RunCancel, 32), (RunCancel, 33), (RunCancel, 34),
      (RunJob, 35), (RunJob, 36), (RunJob, 37), (RunJob, 38), (RunJob, 39), (RunJob, 40),
      (RunJob, 41)]"

definition cancel_late :: "(actor \<times> nat) list" where
  "cancel_late =
     [(RunJob, 30), (RunJob, 31), (RunJob, 32), (RunJob, 33), (RunJob, 34), (RunJob, 35),
      (RunJob, 36),
      (RunCancel, 37), (RunJob, 38), (RunCancel, 39), (RunCancel, 40),
      (RunJob, 41)]"

section \<open>Verification\<close>

subsection \<open>Overlap resolution\<close>








lemma detectPII_throws:
  "or_default (detectAddresses_opt opts) True \<Longrightarrow>
   detectPII env text opts = Inl (TypeError ''detectAddresses is not a function'')"
  by (simp add: detectPII_def allMatches_def Let_def)






subsection \<open>Redaction\<close>

text \<open>
  C7. \<^verbatim>\<open>redactPII\<close> returns no text: its first statement is \<^verbatim>\<open>detectPII(text)\<close> with the
  options left out, which throws, so for every text and every choice of redaction options
  the call throws the same error before a replacement is chosen. With a label supplied
  for e-mail addresses, the text \<^verbatim>\<open>x@b.co\<close> is not replaced by the label.
\<close>

theorem redactPII_throws:
  "redactPII env text opts = Inl (TypeError ''detectAddresses is not a function'')
   \<and> detectPII env text no_options = Inl (TypeError ''detectAddresses is not a function'')
   \<and> label_for mail_label_options
        \<lparr>mtype = Email, mvalue = ''x@b.co'', mstart = 0, mend = 6, confidence = 95 / 100\<rparr>
       = Some ''<mail>''
   \<and> redactPII demo_env ''x@b.co'' mail_label_options
       = Inl (TypeError ''detectAddresses is not a function'')"
proof -
  have d: "\<And>e t. detectPII e t no_options = Inl (TypeError ''detectAddresses is not a function'')"
    by (rule detectPII_throws) (simp add: no_options_def or_default_def)
  then have r: "\<And>e t ro. redactPII e t ro = Inl (TypeError ''detectAddresses is not a function'')"
    by (simp add: redactPII_def)
  have l: "label_for mail_label_options
        \<lparr>mtype = Email, mvalue = ''x@b.co'', mstart = 0, mend = 6, confidence = 95 / 100\<rparr>
       = Some ''<mail>''"
    by (simp add: label_for_def mail_label_options_def)
  from d r l show ?thesis by simp
qed

subsection \<open>Filters\<close>

lemma not_num_le: "a \<noteq> NaN \<Longrightarrow> b \<noteq> NaN \<Longrightarrow> num_le a b \<longleftrightarrow> \<not> num_lt b a"
  by (cases a; cases b) auto

lemma checkFilters_loop_all:
  "checkFilters_loop js record cs \<longleftrightarrow> (\<forall>c \<in> set cs. check_condition js record c)"
  by (induction cs) auto

lemma check_condition_unsupported:
  "operator c \<notin> supported_operators \<Longrightarrow> check_condition js record c"
  by (simp add: check_condition_def supported_operators_def)

lemma check_condition_numeric:
  "operator c = ''gt'' \<or> operator c = ''lt'' \<Longrightarrow> \<forall>n. js_get record (field c) \<noteq> JNum n
   \<Longrightarrow> \<not> check_condition js record c"
  by (auto simp: check_condition_def Let_def split: jsval.splits)

lemma check_condition_string:
  "operator c = ''contains'' \<or> operator c = ''not_contains'' \<Longrightarrow> \<forall>s. js_get record (field c) \<noteq> JStr s
   \<Longrightarrow> \<not> check_condition js record c"
  by (auto simp: check_condition_def Let_def split: jsval.splits)

lemma check_condition_satisfies:
  assumes "operator c = ''gt'' \<or> operator c = ''lt'' \<Longrightarrow>
     js_Number js (cvalue c) \<noteq> NaN \<and> js_get record (field c) \<noteq> JNum NaN"
  shows "check_condition js record c \<longleftrightarrow> satisfies js record c"
proof -
  consider "operator c = ''gt''" | "operator c = ''lt''"
    | "operator c \<noteq> ''gt'' \<and> operator c \<noteq> ''lt''" by blast
  then show ?thesis
  proof cases
    case 1
    with assms show ?thesis
      by (auto simp: check_condition_def satisfies_def Let_def not_num_le split: jsval.splits)
  next
    case 2
    with assms show ?thesis
      by (auto simp: check_condition_def satisfies_def Let_def num_ge_def not_num_le split: jsval.splits)
  next
    case 3
    then show ?thesis
      by (auto simp: check_condition_def satisfies_def Let_def split: jsval.splits)
  qed
qed

text \<open>
  C3, as amended. \<^verbatim>\<open>checkFilters\<close> keeps a record exactly when every condition passes,
  each judged on its own, so the order of the conditions does not matter. The operators
  that can drop a record are \<^verbatim>\<open>eq\<close>, \<^verbatim>\<open>ne\<close>, \<^verbatim>\<open>gt\<close>, \<^verbatim>\<open>lt\<close>, \<^verbatim>\<open>contains\<close> and \<^verbatim>\<open>not_contains\<close>;
  a condition with any other operator passes. \<^verbatim>\<open>gt\<close> and \<^verbatim>\<open>lt\<close> drop the record when the
  field is not a number, \<^verbatim>\<open>contains\<close> and \<^verbatim>\<open>not_contains\<close> when it is not a string. When no
  NaN enters a \<^verbatim>\<open>gt\<close> or \<^verbatim>\<open>lt\<close> comparison, passing is satisfying the condition.
\<close>

theorem checkFilters_and_semantics:
  "(checkFilters js record (Some cs) \<longleftrightarrow> (\<forall>c \<in> set cs. check_condition js record c))
   \<and> (\<forall>cs'. mset cs' = mset cs \<longrightarrow>
         checkFilters js record (Some cs') = checkFilters js record (Some cs))
   \<and> (\<forall>c. operator c \<notin> supported_operators \<longrightarrow> check_condition js record c)
   \<and> (\<forall>c \<in> set cs. (operator c = ''gt'' \<or> operator c = ''lt'') \<and>
         (\<forall>n. js_get record (field c) \<noteq> JNum n) \<longrightarrow> \<not> checkFilters js record (Some cs))
   \<and> (\<forall>c \<in> set cs. (operator c = ''contains'' \<or> operator c = ''not_contains'') \<and>
         (\<forall>s. js_get record (field c) \<noteq> JStr s) \<longrightarrow> \<not> checkFilters js record (Some cs))
   \<and> ((\<forall>c \<in> set cs. operator c = ''gt'' \<or> operator c = ''lt'' \<longrightarrow>
          js_Number js (cvalue c) \<noteq> NaN \<and> js_get record (field c) \<noteq> JNum NaN) \<longrightarrow>
        (checkFilters js record (Some cs) \<longleftrightarrow> (\<forall>c \<in> set cs. satisfies js record c)))"
proof -
  have a: "\<And>xs. checkFilters js record (Some xs) \<longleftrightarrow> (\<forall>c \<in> set xs. check_condition js record c)"
    by (simp add: checkFilters_def checkFilters_loop_all)
  have b: "\<forall>cs'. mset cs' = mset cs \<longrightarrow>
         checkFilters js record (Some cs') = checkFilters js record (Some cs)"
    using a by (metis mset_eq_setD)
  have c: "\<forall>c. operator c \<notin> supported_operators \<longrightarrow> check_condition js record c"
    by (simp add: check_condition_unsupported)
  have d: "\<forall>c \<in> set cs. (operator c = ''gt'' \<or> operator c = ''lt'') \<and>
         (\<forall>n. js_get record (field c) \<noteq> JNum n) \<longrightarrow> \<not> checkFilters js record (Some cs)"
    using a check_condition_numeric by blast
  have e: "\<forall>c \<in> set cs. (operator c = ''contains'' \<or> operator c = ''not_contains'') \<and>
         (\<forall>s. js_get record (field c) \<noteq> JStr s) \<longrightarrow> \<not> checkFilters js record (Some cs)"
    using a check_condition_string by blast
  have f: "(\<forall>c \<in> set cs. operator c = ''gt'' \<or> operator c = ''lt'' \<longrightarrow>
          js_Number js (cvalue c) \<noteq> NaN \<and> js_get record (field c) \<noteq> JNum NaN) \<longrightarrow>
        (checkFilters js record (Some cs) \<longleftrightarrow> (\<forall>c \<in> set cs. satisfies js record c))"
    using a check_condition_satisfies by blast
  from a[of cs] b c d e f show ?thesis by blast
qed

theorem checkFilters_and_semantics_witness:
  "checkFilters demo_js [(''age'', JNum (Fin 25)), (''country'', JStr ''US'')] (Some (rev adult_us))
     = checkFilters demo_js [(''age'', JNum (Fin 25)), (''country'', JStr ''US'')] (Some adult_us)
   \<and> checkFilters demo_js [(''age'', JNum (Fin 25)), (''country'', JStr ''US'')] (Some adult_us)
   \<and> \<not> checkFilters demo_js [(''age'', JNum (Fin 17)), (''country'', JStr ''US'')] (Some adult_us)
   \<and> \<not> checkFilters demo_js [(''age'', JStr ''25''), (''country'', JStr ''US'')] (Some adult_us)"
proof -
  let ?r = "[(''age'', JNum (Fin 25)), (''country'', JStr ''US'')]"
  let ?young = "[(''age'', JNum (Fin 17)), (''country'', JStr ''US'')]"
  let ?s = "[(''age'', JStr ''25''), (''country'', JStr ''US'')]"
  have "mset (rev adult_us) = mset adult_us" by simp
  with checkFilters_and_semantics [of demo_js ?r adult_us]
  have a: "checkFilters demo_js ?r (Some (rev adult_us)) = checkFilters demo_js ?r (Some adult_us)"
    by blast
  have "\<forall>c \<in> set adult_us. satisfies demo_js ?r c"
    by (simp add: adult_us_def satisfies_def js_get_def)
  moreover have "\<forall>c \<in> set adult_us. operator c = ''gt'' \<or> operator c = ''lt'' \<longrightarrow>
        js_Number demo_js (cvalue c) \<noteq> NaN \<and> js_get ?r (field c) \<noteq> JNum NaN"
    by (simp add: adult_us_def js_get_def)
  ultimately have b: "checkFilters demo_js ?r (Some adult_us)"
    using checkFilters_and_semantics [of demo_js ?r adult_us] by blast
  have "\<not> (\<forall>c \<in> set adult_us. satisfies demo_js ?young c)"
    by (simp add: adult_us_def satisfies_def js_get_def)
  moreover have "\<forall>c \<in> set adult_us. operator c = ''gt'' \<or> operator c = ''lt'' \<longrightarrow>
        js_Number demo_js (cvalue c) \<noteq> NaN \<and> js_get ?young (field c) \<noteq> JNum NaN"
    by (simp add: adult_us_def js_get_def)
  ultimately have c: "\<not> checkFilters demo_js ?young (Some adult_us)"
    using checkFilters_and_semantics [of demo_js ?young adult_us] by blast
  have "\<exists>c \<in> set adult_us. (operator c = ''gt'' \<or> operator c = ''lt'') \<and>
         (\<forall>n. js_get ?s (field c) \<noteq> JNum n)"
    by (simp add: adult_us_def js_get_def)
  then have d: "\<not> checkFilters demo_js ?s (Some adult_us)"
    using checkFilters_and_semantics [of demo_js ?s adult_us] by blast
  from a b c d show ?thesis by blast
qed

text \<open>
  C3 as stated fails for \<^verbatim>\<open>gte\<close>: the condition \<^verbatim>\<open>age gte 18\<close> keeps a record whose age is
  not a number, and keeps the record with age 17 of the specification's own example.
\<close>

theorem checkFilters_gte_counterexample:
  "checkFilters demo_js [(''age'', JStr ''seventeen''), (''country'', JStr ''US'')] (Some adult_us_gte)
   \<and> checkFilters demo_js [(''age'', JNum (Fin 17)), (''country'', JStr ''US'')] (Some adult_us_gte)"
  by (simp add: checkFilters_def check_condition_def adult_us_gte_def js_get_def)

subsection \<open>The scheduler\<close>

lemma sorted_take_drop_le:
  assumes "sorted (map f ys)" "c \<in> set (take n ys)" "p \<in> set ys" "p \<notin> set (take n ys)"
  shows "f c \<le> f p"
proof -
  from assms(3,4) have "p \<in> set (drop n ys)"
    by (metis Un_iff append_take_drop_id set_append)
  moreover have "sorted (map f (take n ys) @ map f (drop n ys))"
    using assms(1) by (metis append_take_drop_id map_append)
  ultimately show ?thesis using assms(2) by (auto simp: sorted_append)
qed

text \<open>
  C9, as amended. When the scheduler claims jobs, a slot is free and it claims the first
  pending rows, as many as there are free slots, in the order in which the database
  returns the rows; the query asks for no order. The claim is oldest-first when the
  database returns the rows in creation order.
\<close>

theorem processQueue_claims_in_scan_order:
  "processQueue_step scan w = Claim claimed \<longrightarrow>
     length (activeJobs w) < concurrency
     \<and> claimed = take (concurrency - length (activeJobs w))
                   (filter (\<lambda>j. status j = Pending) (scan (jobs w)))
     \<and> claimed \<noteq> []
     \<and> length claimed \<le> concurrency - length (activeJobs w)
     \<and> (\<forall>c \<in> set claimed. status c = Pending)
     \<and> (set (scan (jobs w)) = set (jobs w) \<and> sorted (map createdAt (scan (jobs w)))
          \<longrightarrow> oldest_first (jobs w) claimed)"
proof
  assume a: "processQueue_step scan w = Claim claimed"
  let ?n = "concurrency - length (activeJobs w)"
  let ?ps = "filter (\<lambda>j. status j = Pending) (scan (jobs w))"
  from a have slots: "length (activeJobs w) < concurrency"
    by (auto simp: processQueue_step_def Let_def split: if_splits)
  then have n: "nat (int concurrency - int (length (activeJobs w))) = ?n" by simp
  from a slots have c: "claimed = take ?n ?ps" and ne: "claimed \<noteq> []"
    by (auto simp: processQueue_step_def Let_def select_pending_def n split: if_splits)
  have len: "length claimed \<le> ?n" using c by simp
  have pend: "\<forall>c \<in> set claimed. status c = Pending"
    using c by (auto dest: in_set_takeD)
  have fifo: "oldest_first (jobs w) claimed"
    if s: "set (scan (jobs w)) = set (jobs w)" and o: "sorted (map createdAt (scan (jobs w)))"
    unfolding oldest_first_def
  proof (intro ballI impI)
    fix x p assume x: "x \<in> set claimed" and p: "p \<in> set (jobs w)"
      and q: "status p = Pending \<and> p \<notin> set claimed"
    have "sorted (map createdAt ?ps)" using o by (simp add: sorted_map sorted_wrt_filter)
    moreover from p q s have "p \<in> set ?ps" by simp
    ultimately show "createdAt x \<le> createdAt p"
      using x q unfolding c by (intro sorted_take_drop_le[of createdAt ?ps x ?n p]) auto
  qed
  from slots c ne len pend fifo
  show "length (activeJobs w) < concurrency
     \<and> claimed = take ?n ?ps
     \<and> claimed \<noteq> []
     \<and> length claimed \<le> ?n
     \<and> (\<forall>c \<in> set claimed. status c = Pending)
     \<and> (set (scan (jobs w)) = set (jobs w) \<and> sorted (map createdAt (scan (jobs w)))
          \<longrightarrow> oldest_first (jobs w) claimed)"
    by blast
qed

lemma demo_step_id: "processQueue_step (\<lambda>rows. rows) demo_queue_world = Claim [demo_job 1 10]"
  by (simp add: processQueue_step_def select_pending_def demo_queue_world_def demo_world_def
      concurrency_def demo_job_def)

theorem processQueue_claims_in_scan_order_witness:
  "processQueue_step (\<lambda>rows. rows) demo_queue_world = Claim [demo_job 1 10]
   \<and> sorted (map createdAt (jobs demo_queue_world))
   \<and> oldest_first (jobs demo_queue_world) [demo_job 1 10]"
proof -
  have s: "sorted (map createdAt (jobs demo_queue_world))"
    by (simp add: demo_queue_world_def demo_job_def)
  from processQueue_claims_in_scan_order [of "\<lambda>rows. rows" demo_queue_world "[demo_job 1 10]"]
    demo_step_id
  have "set (jobs demo_queue_world) = set (jobs demo_queue_world)
          \<and> sorted (map createdAt (jobs demo_queue_world))
        \<longrightarrow> oldest_first (jobs demo_queue_world) [demo_job 1 10]"
    by blast
  with s have "oldest_first (jobs demo_queue_world) [demo_job 1 10]" by blast
  with demo_step_id s show ?thesis by blast
qed

text \<open>
  C9 as stated fails when the database returns the newer row first: with one free slot
  the job created at time 20 is claimed while the job created at time 10 stays pending.
\<close>

theorem processQueue_not_oldest_first_counterexample:
  "processQueue_step rev demo_queue_world = Claim [demo_job 2 20]
   \<and> \<not> oldest_first (jobs demo_queue_world) [demo_job 2 20]"
  by (simp add: processQueue_step_def select_pending_def demo_queue_world_def demo_world_def
      concurrency_def demo_job_def oldest_first_def)

subsection \<open>Job submission\<close>

lemma create_leaves_queue:
  "isProcessing (snd (create time req w)) = isProcessing w
   \<and> activeJobs (snd (create time req w)) = activeJobs w
   \<and> jobLogs (snd (create time req w)) = jobLogs w
   \<and> emitted (snd (create time req w)) = emitted w"
  by (simp add: create_def Let_def split: option.splits sum.splits)

lemma demo_create:
  "create 10 demo_request demo_world =
     (Inr (demo_job 1 10),
      demo_world\<lparr>jobs := [demo_job 1 10],
        auditLogs := [\<lparr>al_organisationId = 1, al_userId = 5, al_action = ''job.create'',
                      al_resourceType = ''job'', al_resourceId = 1\<rparr>]\<rparr>)"
  by (simp add: create_def demo_request_def demo_world_def parseIntParam_def next_job_id_def
      or_default_def demo_job_def Let_def)

text \<open>
  C2. \<^verbatim>\<open>create\<close> refuses a data source that is not ready and leaves the tables as they
  were; for a ready one it inserts a pending row. It never calls \<^verbatim>\<open>enqueue\<close>: whatever the
  request, the scheduler's flag and the job logs are as before, whereas \<^verbatim>\<open>enqueue\<close> on the
  new job would log it and start the scheduler.
\<close>

theorem create_never_enqueues:
  "isProcessing (snd (create time req w)) = isProcessing w
   \<and> jobLogs (snd (create time req w)) = jobLogs w
   \<and> create 10 (demo_request\<lparr>body_dataSourceId := 2\<rparr>) demo_world
       = (Inl (BadRequestError ''Data source is not ready for processing''), demo_world)
   \<and> fst (create 10 demo_request demo_world) = Inr (demo_job 1 10)
   \<and> jobs (snd (create 10 demo_request demo_world)) = [demo_job 1 10]
   \<and> status (demo_job 1 10) = Pending
   \<and> isProcessing (snd (create 10 demo_request demo_world)) = False
   \<and> jobLogs (snd (create 10 demo_request demo_world)) 1 = []
   \<and> isProcessing (enqueue 1 (snd (create 10 demo_request demo_world))) = True
   \<and> jobLogs (enqueue 1 (snd (create 10 demo_request demo_world))) 1 = [LogEnqueued]"
proof -
  have r: "create 10 (demo_request\<lparr>body_dataSourceId := 2\<rparr>) demo_world
       = (Inl (BadRequestError ''Data source is not ready for processing''), demo_world)"
    by (simp add: create_def demo_request_def demo_world_def parseIntParam_def)
  have e: "isProcessing (enqueue 1 (snd (create 10 demo_request demo_world))) = True
     \<and> jobLogs (enqueue 1 (snd (create 10 demo_request demo_world))) 1 = [LogEnqueued]"
    unfolding demo_create
    by (simp add: enqueue_def processQueue_start_def addLog_def update_job_def
        demo_world_def Let_def)
  have q: "isProcessing (snd (create 10 demo_request demo_world)) = False
     \<and> jobLogs (snd (create 10 demo_request demo_world)) 1 = []
     \<and> jobs (snd (create 10 demo_request demo_world)) = [demo_job 1 10]"
    unfolding demo_create by (simp add: demo_world_def)
  have s: "status (demo_job 1 10) = Pending" by (simp add: demo_job_def)
  from create_leaves_queue[of time req w] r e q s demo_create show ?thesis by simp
qed

subsection \<open>Runs of processJob and cancel\<close>

lemma addLog_fields [simp]:
  "jobs (addLog i m w) = jobs w" "writes (addLog i m w) = writes w"
  "activeJobs (addLog i m w) = activeJobs w" "dataSources (addLog i m w) = dataSources w"
  "emitted (addLog i m w) = emitted w" "aborted (addLog i m w) = aborted w"
  by (simp_all add: addLog_def Let_def)

lemma emit_fields [simp]:
  "jobs (emit e w) = jobs w" "writes (emit e w) = writes w"
  "activeJobs (emit e w) = activeJobs w" "dataSources (emit e w) = dataSources w"
  "jobLogs (emit e w) = jobLogs w" "aborted (emit e w) = aborted w"
  by (simp_all add: emit_def)

lemma update_job_fields [simp]:
  "jobs (update_job i f w) = map (\<lambda>j. if job_id j = i then f j else j) (jobs w)"
  "writes (update_job i f w) = writes w @ map f (rows_of i w)"
  "activeJobs (update_job i f w) = activeJobs w" "dataSources (update_job i f w) = dataSources w"
  "emitted (update_job i f w) = emitted w" "jobLogs (update_job i f w) = jobLogs w"
  "aborted (update_job i f w) = aborted w"
  by (simp_all add: update_job_def rows_of_def)

lemma run_Nil [simp]: "run i [] st = st"
  by (simp add: run_def)

lemma run_Cons [simp]: "run i (a # s) st = run i s (run_step i a st)"
  by (simp add: run_def)

lemma run_append: "run i (s1 @ s2) st = run i s2 (run i s1 st)"
  by (simp add: run_def)

lemma run_invariant:
  assumes "P st" and "\<And>a st'. P st' \<Longrightarrow> P (run_step i a st')"
  shows "P (run i s st)"
  using assms(1)
proof (induction s arbitrary: st)
  case Nil
  then show ?case by simp
next
  case (Cons a s)
  from Cons.prems have "P (run_step i a st)" by (rule assms(2))
  then show ?case by (simp add: Cons.IH)
qed

lemma run_step_job:
  "run_step i (RunJob, t) st =
     st\<lparr>job_at := fst (processJob_step i t (job_at st) (state st)),
        state := snd (processJob_step i t (job_at st) (state st))\<rparr>"
  by (simp add: run_step_def split: prod.splits)

lemma run_step_cancel:
  "run_step i (RunCancel, t) st =
     st\<lparr>cancel_at := fst (cancel_step i t (cancel_at st) (state st)),
        state := snd (cancel_step i t (cancel_at st) (state st))\<rparr>"
  by (simp add: run_step_def split: prod.splits)

lemma catch_block_fields [simp]:
  "jobs (snd (catch_block i msg t w)) = jobs w"
  "writes (snd (catch_block i msg t w)) = writes w"
  "fst (catch_block i msg t w) = FailureStoring msg t"
  by (simp_all add: catch_block_def)






lemma rows_of_update [simp]:
  "rows_of i (update_job i f w) = map f (rows_of i w)" if "\<And>j. job_id (f j) = job_id j"
proof -
  have "filter (\<lambda>j. job_id j = i) (map (\<lambda>j. if job_id j = i then f j else j) xs)
        = map f (filter (\<lambda>j. job_id j = i) xs)" for xs
    by (induction xs) (simp_all add: that)
  then show ?thesis by (simp add: rows_of_def)
qed

lemma rows_of_log [simp]:
  "rows_of i (addLog k m w) = rows_of i w" "rows_of i (emit e w) = rows_of i w"
  "rows_of i (snd (catch_block k msg t w)) = rows_of i w"
  "rows_of i (w\<lparr>activeJobs := a\<rparr>) = rows_of i w"
  "rows_of i (w\<lparr>aborted := b\<rparr>) = rows_of i w"
  by (simp_all add: rows_of_def)

lemma failed_after_cancel_step:
  "failed_after_cancel i st \<Longrightarrow> failed_after_cancel i (run_step i a st)"
proof (cases a)
  case (Pair who t)
  assume f: "failed_after_cancel i st"
  show ?thesis
  proof (cases who)
    case RunJob
    with Pair f show ?thesis
      by (cases "(i, t, job_at st, state st)" rule: processJob_step.cases)
         (auto simp: failed_after_cancel_def run_step_job Let_def list_all_iff catch_block_def)
  next
    case RunCancel
    with Pair f show ?thesis
      by (cases "(i, t, cancel_at st, state st)" rule: cancel_step.cases)
         (auto simp: failed_after_cancel_def run_step_cancel)
  qed
qed

lemma failed_after_cancel_run:
  "failed_after_cancel i st \<Longrightarrow> failed_after_cancel i (run i s st)"
  by (rule run_invariant[where P = "failed_after_cancel i"]) (simp_all add: failed_after_cancel_step)

lemma status_inv_step: "status_inv i st \<Longrightarrow> status_inv i (run_step i a st)"
proof (cases a)
  case (Pair who t)
  assume f: "status_inv i st"
  show ?thesis
  proof (cases who)
    case RunJob
    with Pair f show ?thesis
      by (cases "(i, t, job_at st, state st)" rule: processJob_step.cases)
         (auto simp: status_inv_def run_step_job Let_def list_all_iff catch_block_def)
  next
    case RunCancel
    with Pair f show ?thesis
      by (cases "(i, t, cancel_at st, state st)" rule: cancel_step.cases)
         (auto simp: status_inv_def run_step_cancel list_all_iff)
  qed
qed

lemma status_inv_run: "status_inv i (run i s (initially w))"
  by (rule run_invariant[where P = "status_inv i"])
     (simp_all add: status_inv_step, simp add: status_inv_def initially_def)

lemma steps_left_step:
  "steps_left (fst (processJob_step i t pc w)) \<le> steps_left pc - 1"
  by (cases "(i, t, pc, w)" rule: processJob_step.cases) (simp_all add: Let_def)

lemma steps_left_run:
  "steps_left (job_at (run i s st)) \<le> steps_left (job_at st) - count_list (map fst s) RunJob"
proof (induction s arbitrary: st)
  case Nil
  then show ?case by simp
next
  case (Cons a s)
  obtain who t where a: "a = (who, t)" by (cases a)
  show ?case
  proof (cases who)
    case RunJob
    have "steps_left (job_at (run_step i a st)) \<le> steps_left (job_at st) - 1"
      using a RunJob steps_left_step[of i t "job_at st" "state st"] by (simp add: run_step_job)
    with Cons.IH[of "run_step i a st"] a RunJob show ?thesis by simp
  next
    case RunCancel
    have "job_at (run_step i a st) = job_at st"
      using a RunCancel by (simp add: run_step_cancel)
    with Cons.IH[of "run_step i a st"] a RunCancel show ?thesis by simp
  qed
qed

lemma steps_left_0: "steps_left pc = 0 \<longleftrightarrow> pc = JobDone"
  by (cases pc) simp_all

lemma run_done:
  "9 \<le> count_list (map fst s) RunJob \<Longrightarrow> job_at (run i s (initially w)) = JobDone"
proof -
  assume "9 \<le> count_list (map fst s) RunJob"
  with steps_left_run[of i s "initially w"]
  have "steps_left (job_at (run i s (initially w))) = 0" by (simp add: initially_def)
  then show ?thesis by (simp add: steps_left_0)
qed

lemma const_image_set [simp]: "c \<in> (\<lambda>x. c) ` set xs \<longleftrightarrow> xs \<noteq> []"
  by (cases xs) auto


lemma written_since_append:
  "length (writes w) \<le> length xs \<Longrightarrow> drop (length (writes w)) (xs @ ys) = drop (length (writes w)) xs @ ys"
  by simp

lemma hist_inv_step: "hist_inv w i st \<Longrightarrow> hist_inv w i (run_step i a st)"
proof (cases a)
  case (Pair who t)
  assume f: "hist_inv w i st"
  show ?thesis
  proof (cases who)
    case RunJob
    with Pair f show ?thesis
      by (cases "(i, t, job_at st, state st)" rule: processJob_step.cases)
         (auto simp: hist_inv_def run_step_job Let_def written_since_def list_all_iff)
  next
    case RunCancel
    with Pair f show ?thesis
      by (cases "(i, t, cancel_at st, state st)" rule: cancel_step.cases)
         (auto simp: hist_inv_def run_step_cancel written_since_def list_all_iff)
  qed
qed

lemma hist_inv_run: "hist_inv w i (run i s (initially w))"
  by (rule run_invariant[where P = "hist_inv w i"])
     (simp_all add: hist_inv_step, simp add: hist_inv_def initially_def written_since_def)



lemma find_None_rows: "find (\<lambda>j. job_id j = i) (jobs w) = None \<Longrightarrow> rows_of i w = []"
  by (auto simp: rows_of_def find_None_iff filter_empty_conv)

lemma reason_ok_find [simp]:
  "reason_ok (JobRead (find (\<lambda>j. job_id j = i) (jobs w))) (rows_of i w)"
  by (cases "find (\<lambda>j. job_id j = i) (jobs w)") (simp_all add: find_None_rows)




lemma demo_submitted_eq:
  "demo_submitted =
     demo_world\<lparr>jobs := [demo_job 1 10],
        auditLogs := [\<lparr>al_organisationId = 1, al_userId = 5, al_action = ''job.create'',
                      al_resourceType = ''job'', al_resourceId = 1\<rparr>]\<rparr>"
  unfolding demo_submitted_def demo_create by simp

lemmas run_defs = run_step_job run_step_cancel catch_block_def Let_def update_job_def
  addLog_def emit_def demo_world_def demo_job_def initially_def config_outputFormat_def


lemma demo_cancel_early:
  "job_at (run 1 cancel_early (initially demo_submitted)) = JobDone
   \<and> cancel_at (run 1 cancel_early (initially demo_submitted)) = CancelDone True
   \<and> map status (writes (state (run 1 cancel_early (initially demo_submitted))))
       = [Processing, Cancelled, Failed]
   \<and> map status (jobs (state (run 1 cancel_early (initially demo_submitted)))) = [Failed]
   \<and> map errorMessage (jobs (state (run 1 cancel_early (initially demo_submitted))))
       = [Some ''Data source has no S3 key'']
   \<and> emitted (state (run 1 cancel_early (initially demo_submitted)))
       = [EvCancelled 1, EvFailed 1 ''Data source has no S3 key'']
   \<and> jobLogs (state (run 1 cancel_early (initially demo_submitted))) 1
       = [LogCancelledByUser, LogStarted, LogDataSource ''people'', LogOutputFormat ''jsonl'',
          LogFailed ''Data source has no S3 key'']"
  unfolding demo_submitted_eq cancel_early_def
  by (simp add: run_defs)

lemma demo_cancel_early_split:
  "cancel_early = take 5 cancel_early @ drop 5 cancel_early
   \<and> cancel_at (run 1 (take 5 cancel_early) (initially demo_submitted)) = CancelDone True
   \<and> job_at (run 1 (take 5 cancel_early) (initially demo_submitted)) = JobMarked
   \<and> map status (written_since demo_submitted
        (state (run 1 (take 5 cancel_early) (initially demo_submitted))))
       = [Processing, Cancelled]
   \<and> rows_of 1 demo_submitted = [demo_job 1 10]"
  unfolding demo_submitted_eq cancel_early_def
  by (simp add: run_defs written_since_def rows_of_def)

lemma demo_cancel_late:
  "job_at (run 1 cancel_late (initially demo_submitted)) = JobDone
   \<and> cancel_at (run 1 cancel_late (initially demo_submitted)) = CancelDone True
   \<and> map status (writes (state (run 1 cancel_late (initially demo_submitted))))
       = [Processing, Failed, Cancelled]
   \<and> map status (jobs (state (run 1 cancel_late (initially demo_submitted)))) = [Cancelled]
   \<and> emitted (state (run 1 cancel_late (initially demo_submitted)))
       = [EvCancelled 1, EvFailed 1 ''Data source has no S3 key'']"
  unfolding demo_submitted_eq cancel_late_def
  by (simp add: run_defs)



subsection \<open>Cancellation, counters and progress\<close>

text \<open>
  C1. The status \<^verbatim>\<open>cancelled\<close> does not last. When the update of \<^verbatim>\<open>cancel\<close> has been
  executed and the update of the \<^verbatim>\<open>catch\<close> block of \<^verbatim>\<open>processJob\<close> has not, then, once
  \<^verbatim>\<open>processJob\<close> has returned, every row of the job is failed, and (when the job has a row)
  a cancelled row had been written before. Whatever the schedule, a job whose
  \<^verbatim>\<open>processJob\<close> has returned is cancelled or failed, and nine steps of \<^verbatim>\<open>processJob\<close> are
  enough for it to return. No batch is ever processed: every run of \<^verbatim>\<open>processJob\<close> ends in
  its \<^verbatim>\<open>catch\<close> block.
\<close>

theorem cancelled_status_is_overwritten:
  "(cancel_stored (cancel_at (run jobId s1 (initially w)))
      \<and> failure_pending (job_at (run jobId s1 (initially w)))
      \<and> job_at (run jobId (s1 @ s2) (initially w)) = JobDone
    \<longrightarrow> list_all (\<lambda>j. status j = Failed) (rows_of jobId (state (run jobId (s1 @ s2) (initially w))))
        \<and> (rows_of jobId w = []
            \<or> Cancelled \<in> set (map status
                 (written_since w (state (run jobId s1 (initially w)))))))
   \<and> (job_at (run jobId s (initially w)) = JobDone
    \<longrightarrow> list_all (\<lambda>j. status j = Cancelled \<or> status j = Failed)
          (rows_of jobId (state (run jobId s (initially w)))))
   \<and> (9 \<le> count_list (map fst s) RunJob \<longrightarrow> job_at (run jobId s (initially w)) = JobDone)"
proof (intro conjI impI)
  assume a: "cancel_stored (cancel_at (run jobId s1 (initially w)))
      \<and> failure_pending (job_at (run jobId s1 (initially w)))
      \<and> job_at (run jobId (s1 @ s2) (initially w)) = JobDone"
  let ?st1 = "run jobId s1 (initially w)"
  from a have "failed_after_cancel jobId ?st1" by (simp add: failed_after_cancel_def)
  then have "failed_after_cancel jobId (run jobId s2 ?st1)" by (rule failed_after_cancel_run)
  with a show "list_all (\<lambda>j. status j = Failed)
      (rows_of jobId (state (run jobId (s1 @ s2) (initially w))))"
    by (simp add: failed_after_cancel_def run_append)
  from hist_inv_run[of w jobId s1] a
  have "rows_of jobId (state ?st1) = []
        \<or> Cancelled \<in> set (map status (written_since w (state ?st1)))"
    and "length (rows_of jobId (state ?st1)) = length (rows_of jobId w)"
    by (simp_all add: hist_inv_def)
  then show "rows_of jobId w = []
        \<or> Cancelled \<in> set (map status (written_since w (state ?st1)))"
    by auto
next
  assume "job_at (run jobId s (initially w)) = JobDone"
  with status_inv_run[of jobId s w]
  show "list_all (\<lambda>j. status j = Cancelled \<or> status j = Failed)
          (rows_of jobId (state (run jobId s (initially w))))"
    by (simp add: status_inv_def)
next
  assume "9 \<le> count_list (map fst s) RunJob"
  then show "job_at (run jobId s (initially w)) = JobDone" by (rule run_done)
qed

theorem cancelled_status_is_overwritten_witness:
  "cancel_stored (cancel_at (run 1 (take 5 cancel_early) (initially demo_submitted)))
   \<and> failure_pending (job_at (run 1 (take 5 cancel_early) (initially demo_submitted)))
   \<and> job_at (run 1 cancel_early (initially demo_submitted)) = JobDone
   \<and> list_all (\<lambda>j. status j = Failed)
        (rows_of 1 (state (run 1 cancel_early (initially demo_submitted))))
   \<and> map status (writes (state (run 1 cancel_early (initially demo_submitted))))
       = [Processing, Cancelled, Failed]
   \<and> map status (jobs (state (run 1 cancel_early (initially demo_submitted)))) = [Failed]
   \<and> map errorMessage (jobs (state (run 1 cancel_early (initially demo_submitted))))
       = [Some ''Data source has no S3 key'']
   \<and> emitted (state (run 1 cancel_early (initially demo_submitted)))
       = [EvCancelled 1, EvFailed 1 ''Data source has no S3 key'']
   \<and> map status (writes (state (run 1 cancel_late (initially demo_submitted))))
       = [Processing, Failed, Cancelled]
   \<and> map status (jobs (state (run 1 cancel_late (initially demo_submitted)))) = [Cancelled]
   \<and> 9 \<le> count_list (map fst cancel_early) RunJob"
proof -
  have s: "take 5 cancel_early @ drop 5 cancel_early = cancel_early" by simp
  have h: "cancel_stored (cancel_at (run 1 (take 5 cancel_early) (initially demo_submitted)))
     \<and> failure_pending (job_at (run 1 (take 5 cancel_early) (initially demo_submitted)))"
    using demo_cancel_early_split by simp
  have c: "9 \<le> count_list (map fst cancel_early) RunJob"
    by (simp add: cancel_early_def)
  from cancelled_status_is_overwritten
         [of 1 "take 5 cancel_early" demo_submitted "drop 5 cancel_early" cancel_early] c
  have d: "job_at (run 1 cancel_early (initially demo_submitted)) = JobDone" by blast
  from cancelled_status_is_overwritten
         [of 1 "take 5 cancel_early" demo_submitted "drop 5 cancel_early" cancel_early] h d
  have f: "list_all (\<lambda>j. status j = Failed)
        (rows_of 1 (state (run 1 cancel_early (initially demo_submitted))))"
    unfolding s by blast
  from h d f c demo_cancel_early demo_cancel_late show ?thesis by simp
qed





end
